theory Spec2Isabelle
  imports Main "HOL-Library.Char_ord" "HOL-Library.List_Lexorder"
begin

section \<open>Constants and waypoints (hello-myo.cpp, lines 17-20 and 168-195)\<close>

text \<open>
  The globals \<open>TOLERANCE\<close> and \<open>MAX_STRIKES\<close> are plain \<open>int\<close> variables that no
  statement of the program assigns after their initialisation, so they are constants here.
  The fields of \<open>EulerAngle\<close> are C++ \<open>int\<close>; every value the program stores in them comes
  from the quantizer, whose outputs on a unit quaternion are tiny, so the mathematical
  integers stand for them (no subtraction below can leave the range of a 32-bit \<open>int\<close>
  on such values).
\<close>

definition TOLERANCE :: int where
  "TOLERANCE = 2"

definition MAX_STRIKES :: int where
  "MAX_STRIKES = 2"

record EulerAngle =
  roll :: int
  pitch :: int
  yaw :: int

text \<open>The default member initialisers: \<open>EulerAngle lastAngle;\<close> is the all-zero waypoint.\<close>

definition EulerAngle_default :: EulerAngle where
  "EulerAngle_default = \<lparr>roll = 0, pitch = 0, yaw = 0\<rparr>"

text \<open>\<open>EulerAngle::equals\<close>: within \<open>TOLERANCE\<close> on every axis.\<close>

definition EulerAngle_equals :: "EulerAngle \<Rightarrow> EulerAngle \<Rightarrow> bool" where
  "EulerAngle_equals this ua =
     (\<bar>roll this - roll ua\<bar> \<le> TOLERANCE
      \<and> \<bar>pitch this - pitch ua\<bar> \<le> TOLERANCE
      \<and> \<bar>yaw this - yaw ua\<bar> \<le> TOLERANCE)"

section \<open>Gestures (lines 196-239)\<close>

text \<open>
  A \<open>Gesture\<close> holds a vector of waypoints. \<open>Gesture::equals\<close> reads \<open>values->at(n)\<close>,
  which throws \<open>std::out_of_range\<close> when \<open>n\<close> (converted to an unsigned size) is not an
  index of the vector: that is the result \<open>None\<close>.
\<close>

type_synonym Gesture = "EulerAngle list"

definition Gesture_equals :: "Gesture \<Rightarrow> EulerAngle \<Rightarrow> int \<Rightarrow> bool option" where
  "Gesture_equals vals euler n =
     (if 0 \<le> n \<and> n < int (length vals)
      then Some (EulerAngle_equals (vals ! nat n) euler)
      else None)"

definition getNumSteps :: "Gesture \<Rightarrow> int" where
  "getNumSteps vals = int (length vals)"

section \<open>The collector as the loops see it (lines 25-167)\<close>

text \<open>
  \<open>hub->run(1000/FREQUENCY)\<close> lets the device callbacks update the collector for one
  time slice. A session is driven by the list of collector states found after each
  successive call of \<open>hub->run\<close>. The record has the fields that the two loops read (the
  pose and the three quantized angles) and the time stamp; \<open>onArm\<close>, \<open>whichArm\<close> and
  \<open>isUnlocked\<close> are used for printing only and are left out. The quantized angles are
  taken as the callback \<open>onOrientationData\<close> left them: that callback computes them in
  single and double precision floating point, which is outside this development.
\<close>

datatype Pose = rest | fist | waveIn | waveOut | fingersSpread | doubleTap | unknown

record Collector =
  currentPose :: Pose
  roll_w :: int
  pitch_w :: int
  yaw_w :: int
  timestamp :: nat

text \<open>
  What a loop has done when the given prefix of the stream is used up: it has returned
  (with the value, the final local state and the collector states not yet consumed), it
  is still polling (\<open>Pending\<close>, with the local state reached), or an exception left it.
\<close>

datatype ('r, 's) session =
  Returned 'r 's "Collector list"
  | Pending 's
  | Thrown

fun session_state :: "('r, 's) session \<Rightarrow> 's option" where
  "session_state (Returned r s cs) = Some s"
| "session_state (Pending s) = Some s"
| "session_state Thrown = None"

fun session_result :: "('r, 's) session \<Rightarrow> 'r option" where
  "session_result (Returned r s cs) = Some r"
| "session_result (Pending s) = None"
| "session_result Thrown = None"

section \<open>GestureRecorder::record (lines 265-310)\<close>

text \<open>
  The locals of \<open>record\<close>: \<open>lastAngle\<close>, \<open>minorChange\<close> and the vector of the gesture
  being recorded (\<open>lastGesture->values\<close>, fresh after \<open>reset()\<close>).
\<close>

record RecState =
  rec_lastAngle :: EulerAngle
  rec_minorChange :: bool
  rec_values :: Gesture

definition record_init :: RecState where
  "record_init = \<lparr>rec_lastAngle = EulerAngle_default, rec_minorChange = False, rec_values = []\<rparr>"

text \<open>The body of the loop after the \<open>doubleTap\<close> test (lines 287-308).\<close>

definition record_body :: "RecState \<Rightarrow> Collector \<Rightarrow> RecState" where
  "record_body s c =
     (if pitch (rec_lastAngle s) = pitch_w c \<and> roll (rec_lastAngle s) = roll_w c
         \<and> yaw (rec_lastAngle s) = yaw_w c
      then s\<lparr>rec_minorChange := False\<rparr>
      else if \<bar>pitch (rec_lastAngle s) - pitch_w c\<bar> \<le> 1
         \<and> \<bar>roll (rec_lastAngle s) - roll_w c\<bar> \<le> 1
         \<and> \<bar>yaw (rec_lastAngle s) - yaw_w c\<bar> \<le> 1 \<and> rec_minorChange s
      then s\<lparr>rec_minorChange := True\<rparr>
      else
        (let newAngle = (rec_lastAngle s)\<lparr>pitch := pitch_w c, roll := roll_w c, yaw := yaw_w c\<rparr>
         in s\<lparr>rec_minorChange := False,
              rec_values := rec_values s @ [newAngle],
              rec_lastAngle := newAngle\<rparr>))"

text \<open>
  The loop: \<open>hub->run\<close> first, then the \<open>doubleTap\<close> test that ends the recording,
  then the body.
\<close>

fun record_loop :: "Collector list \<Rightarrow> RecState \<Rightarrow> (unit, RecState) session" where
  "record_loop [] s = Pending s"
| "record_loop (c # cs) s =
     (if currentPose c = doubleTap then Returned () s cs
      else record_loop cs (record_body s c))"

definition GestureRecorder_record :: "Collector list \<Rightarrow> (unit, RecState) session" where
  "GestureRecorder_record cs = record_loop cs record_init"

section \<open>GestureListener::isGesture (lines 346-397)\<close>

text \<open>
  The locals of \<open>isGesture\<close>, and the waypoints it prints on \<open>std::cout\<close> (line 376):
  a waypoint is printed exactly when it passes the two \<open>continue\<close> tests, that is, when
  it is handed on to the comparison with the gesture.
\<close>

record MatchState =
  lastAngle :: EulerAngle
  correct :: int
  strikes :: int
  minorChange :: bool
  printed :: "EulerAngle list"

definition isGesture_init :: MatchState where
  "isGesture_init =
     \<lparr>lastAngle = EulerAngle_default, correct = 0, strikes = 0, minorChange = False, printed = []\<rparr>"

text \<open>Lines 378-394: the comparison of a waypoint that was let through with the target.\<close>

definition match_step :: "Gesture \<Rightarrow> EulerAngle \<Rightarrow> MatchState \<Rightarrow> MatchState option" where
  "match_step gesture newAngle s =
     (case Gesture_equals gesture newAngle (correct s) of
        None \<Rightarrow> None
      | Some True \<Rightarrow> Some (s\<lparr>correct := correct s + 1, lastAngle := newAngle\<rparr>)
      | Some False \<Rightarrow>
          (if strikes s \<ge> MAX_STRIKES
           then Some (s\<lparr>correct := 0, strikes := 0, lastAngle := newAngle\<rparr>)
           else Some (s\<lparr>strikes := strikes s + 1, lastAngle := newAngle\<rparr>)))"

text \<open>Lines 361-394: the body of the loop after \<open>hub->run\<close>.\<close>

definition isGesture_body :: "Gesture \<Rightarrow> MatchState \<Rightarrow> Collector \<Rightarrow> MatchState option" where
  "isGesture_body gesture s c =
     (if pitch (lastAngle s) = pitch_w c \<and> roll (lastAngle s) = roll_w c
         \<and> yaw (lastAngle s) = yaw_w c
      then Some (s\<lparr>minorChange := False\<rparr>)
      else if \<bar>pitch (lastAngle s) - pitch_w c\<bar> \<le> 1
         \<and> \<bar>roll (lastAngle s) - roll_w c\<bar> \<le> 1
         \<and> \<bar>yaw (lastAngle s) - yaw_w c\<bar> \<le> 1 \<and> minorChange s
      then Some (s\<lparr>minorChange := True\<rparr>)
      else
        (let newAngle = (lastAngle s)\<lparr>pitch := pitch_w c, roll := roll_w c, yaw := yaw_w c\<rparr>
         in match_step gesture newAngle
              (s\<lparr>minorChange := False, printed := printed s @ [newAngle]\<rparr>)))"

text \<open>
  The loop. Its first argument after the gesture is the collector as it stands when the
  loop condition is tested: the \<open>waveOut\<close> test reads the pose left by the previous
  \<open>hub->run\<close> (or found on entry). The function returns \<open>true\<close> on both exits.
\<close>

fun isGesture_loop ::
  "Gesture \<Rightarrow> Collector \<Rightarrow> Collector list \<Rightarrow> MatchState \<Rightarrow> (bool, MatchState) session" where
  "isGesture_loop gesture c [] s =
     (if correct s < getNumSteps gesture
      then (if currentPose c = waveOut then Returned True s [] else Pending s)
      else Returned True s [])"
| "isGesture_loop gesture c (c' # cs) s =
     (if correct s < getNumSteps gesture
      then (if currentPose c = waveOut then Returned True s (c' # cs)
            else (case isGesture_body gesture s c' of
                    None \<Rightarrow> Thrown
                  | Some s' \<Rightarrow> isGesture_loop gesture c' cs s'))
      else Returned True s (c' # cs))"

definition isGesture :: "Gesture \<Rightarrow> Collector \<Rightarrow> Collector list \<Rightarrow> (bool, MatchState) session" where
  "isGesture gesture c cs = isGesture_loop gesture c cs isGesture_init"

text \<open>A collector state with the given pose and quantized angles.\<close>

definition snapshot :: "Pose \<Rightarrow> int \<Rightarrow> int \<Rightarrow> int \<Rightarrow> Collector" where
  "snapshot p r pt y = \<lparr>currentPose = p, roll_w = r, pitch_w = pt, yaw_w = y, timestamp = 0\<rparr>"

section \<open>The gesture library (lines 465-489, and its uses in main)\<close>

text \<open>
  \<open>Gestures::gest\<close> is a \<open>std::map<std::string, Gesture*>\<close>: its iterator visits the
  entries in ascending order of the keys under \<open>std::less\<close> on \<open>std::string\<close>, the
  lexicographic order of the bytes. The map is modelled by the list of its entries in
  iteration order. A stored \<open>Gesture*\<close> is \<open>Some\<close> of the gesture it points to, or \<open>None\<close>
  for the null pointer.
\<close>

type_synonym GesturePtr = "Gesture option"

type_synonym Library = "(string \<times> GesturePtr) list"

text \<open>
  \<open>gest[k] = v\<close> (line 545): \<open>operator[]\<close> finds the entry of \<open>k\<close> or inserts one at its
  place in the key order, and the assignment stores \<open>v\<close> in it.
\<close>

fun gest_assign :: "Library \<Rightarrow> string \<Rightarrow> GesturePtr \<Rightarrow> Library" where
  "gest_assign [] k v = [(k, v)]"
| "gest_assign ((k', v') # es) k v =
     (if k < k' then (k, v) # (k', v') # es
      else if k = k' then (k', v) # es
      else (k', v') # gest_assign es k v)"

text \<open>
  \<open>gest[k]\<close> read as a value (line 575): \<open>operator[]\<close> returns the mapped pointer of an
  existing key; for a key that is not in the map it inserts the key with a
  value-initialised (null) pointer and returns that. The result is the pointer read and
  the map afterwards.
\<close>

fun gest_subscript :: "Library \<Rightarrow> string \<Rightarrow> GesturePtr \<times> Library" where
  "gest_subscript [] k = (None, [(k, None)])"
| "gest_subscript ((k', v') # es) k =
     (if k < k' then (None, (k, None) # (k', v') # es)
      else if k = k' then (v', (k', v') # es)
      else (case gest_subscript es k of (v, es') \<Rightarrow> (v, (k', v') # es')))"

text \<open>
  \<open>Gestures::keyAt\<close>: the loop compares the counter \<open>i\<close> with \<open>n\<close> at every entry and never
  changes \<open>i\<close>. When the loop ends without a \<open>return\<close>, control flows off the end of a
  function that returns a \<open>std::string\<close>: no value is defined, which is \<open>None\<close> here.
\<close>

fun keyAt_loop :: "Library \<Rightarrow> int \<Rightarrow> int \<Rightarrow> string option" where
  "keyAt_loop [] i n = None"
| "keyAt_loop ((k, v) # es) i n = (if i = n then Some k else keyAt_loop es i n)"

definition keyAt :: "Library \<Rightarrow> int \<Rightarrow> string option" where
  "keyAt lib n = keyAt_loop lib 0 n"

fun getSize_loop :: "Library \<Rightarrow> int \<Rightarrow> int" where
  "getSize_loop [] i = i"
| "getSize_loop (e # es) i = getSize_loop es (i + 1)"

definition getSize :: "Library \<Rightarrow> int" where
  "getSize lib = getSize_loop lib 0"

text \<open>
  The saves of a run of the program, in the order they happen: each is
  \<open>gestures.gest[name] = recorder->getGesture()\<close> on the library so far, which starts empty.
\<close>

fun save_all :: "Library \<Rightarrow> (string \<times> Gesture) list \<Rightarrow> Library" where
  "save_all lib [] = lib"
| "save_all lib ((name, g) # later) = save_all (gest_assign lib name (Some g)) later"

section \<open>Auxiliary notions for the statements\<close>

text \<open>
  The waypoint a collector state shows. It is the value of \<open>newAngle\<close> after the three
  assignments of lines 298-300 and 372-374, whatever \<open>lastAngle\<close> was.
\<close>

definition collector_angle :: "Collector \<Rightarrow> EulerAngle" where
  "collector_angle c = \<lparr>roll = roll_w c, pitch = pitch_w c, yaw = yaw_w c\<rparr>"

text \<open>
  The states a session can be in while every collector state shows the same waypoint
  \<open>w\<close>: nothing was let through yet, or \<open>w\<close> alone was.
\<close>

definition rec_static :: "EulerAngle \<Rightarrow> RecState \<Rightarrow> bool" where
  "rec_static w s \<longleftrightarrow>
     \<not> rec_minorChange s \<and>
     (rec_lastAngle s = EulerAngle_default \<and> rec_values s = []
      \<or> w \<noteq> EulerAngle_default \<and> rec_lastAngle s = w \<and> rec_values s = [w])"

definition match_static :: "EulerAngle \<Rightarrow> MatchState \<Rightarrow> bool" where
  "match_static w s \<longleftrightarrow>
     \<not> minorChange s \<and> 0 \<le> correct s \<and>
     (lastAngle s = EulerAngle_default \<and> printed s = []
      \<or> w \<noteq> EulerAngle_default \<and> lastAngle s = w \<and> printed s = [w])"

section \<open>The debounce tests when the flag is down\<close>

lemma newAngle_eq:
  "(la :: EulerAngle)\<lparr>pitch := pitch_w c, roll := roll_w c, yaw := yaw_w c\<rparr> = collector_angle c"
  by (simp add: collector_angle_def)

lemma same_angle_iff:
  "(pitch la = pitch_w c \<and> roll la = roll_w c \<and> yaw la = yaw_w c) \<longleftrightarrow> la = collector_angle c"
  by (cases la) (auto simp: collector_angle_def)

lemma minorChange_idle: "\<not> minorChange (s :: MatchState) \<Longrightarrow> s\<lparr>minorChange := False\<rparr> = s"
  by (cases s) simp

lemma rec_minorChange_idle:
  "\<not> rec_minorChange (s :: RecState) \<Longrightarrow> s\<lparr>rec_minorChange := False\<rparr> = s"
  by (cases s) simp

lemma record_body_quiet:
  "\<not> rec_minorChange s \<Longrightarrow>
   record_body s c =
     (if rec_lastAngle s = collector_angle c then s
      else s\<lparr>rec_values := rec_values s @ [collector_angle c], rec_lastAngle := collector_angle c\<rparr>)"
  by (simp add: record_body_def newAngle_eq same_angle_iff Let_def rec_minorChange_idle)

lemma isGesture_body_quiet:
  "\<not> minorChange s \<Longrightarrow>
   isGesture_body gesture s c =
     (if lastAngle s = collector_angle c then Some s
      else match_step gesture (collector_angle c) (s\<lparr>printed := printed s @ [collector_angle c]\<rparr>))"
  by (simp add: isGesture_body_def newAngle_eq same_angle_iff Let_def minorChange_idle)

lemma match_step_minorChange:
  "match_step gesture w s = Some s' \<Longrightarrow> minorChange s' = minorChange s"
  by (auto simp: match_step_def split: option.splits bool.splits if_splits)

lemma match_step_printed:
  "match_step gesture w s = Some s' \<Longrightarrow> printed s' = printed s \<and> lastAngle s' = w"
  by (auto simp: match_step_def split: option.splits bool.splits if_splits)

lemma match_step_correct_nonneg:
  "match_step gesture w s = Some s' \<Longrightarrow> 0 \<le> correct s \<Longrightarrow> 0 \<le> correct s'"
  by (auto simp: match_step_def split: option.splits bool.splits if_splits)

text \<open>Inside the loop the index handed to \<open>at\<close> is in range, so nothing is thrown.\<close>

lemma match_step_defined:
  "0 \<le> correct s \<Longrightarrow> correct s < getNumSteps gesture \<Longrightarrow> \<exists>s'. match_step gesture w s = Some s'"
  by (auto simp: match_step_def Gesture_equals_def getNumSteps_def split: option.splits bool.splits)

lemma record_body_flag: "\<not> rec_minorChange s \<Longrightarrow> \<not> rec_minorChange (record_body s c)"
  by (simp add: record_body_quiet)

lemma isGesture_body_flag:
  "\<not> minorChange s \<Longrightarrow> isGesture_body gesture s c = Some s' \<Longrightarrow> \<not> minorChange s'"
  by (auto simp: isGesture_body_quiet dest: match_step_minorChange split: if_splits)

lemma record_loop_flag:
  "\<not> rec_minorChange s \<Longrightarrow> session_state (record_loop cs s) = Some s' \<Longrightarrow> \<not> rec_minorChange s'"
proof (induction cs arbitrary: s)
  case Nil
  then show ?case by simp
next
  case (Cons c cs)
  show ?case
  proof (cases "currentPose c = doubleTap")
    case True
    with Cons.prems show ?thesis by simp
  next
    case False
    with Cons.prems have "session_state (record_loop cs (record_body s c)) = Some s'" by simp
    with Cons.IH [OF record_body_flag [OF Cons.prems(1)]] show ?thesis by blast
  qed
qed

lemma isGesture_loop_flag:
  "\<not> minorChange s \<Longrightarrow> session_state (isGesture_loop gesture c cs s) = Some s' \<Longrightarrow> \<not> minorChange s'"
proof (induction cs arbitrary: s c)
  case Nil
  then show ?case by (simp split: if_splits)
next
  case (Cons c' cs)
  show ?case
  proof (cases "correct s < getNumSteps gesture \<and> currentPose c \<noteq> waveOut")
    case False
    with Cons.prems show ?thesis by (auto split: if_splits)
  next
    case True
    with Cons.prems obtain s1 where b: "isGesture_body gesture s c' = Some s1"
      and l: "session_state (isGesture_loop gesture c' cs s1) = Some s'"
      by (auto split: option.splits)
    from isGesture_body_flag [OF Cons.prems(1) b] have "\<not> minorChange s1" .
    from Cons.IH [OF this l] show ?thesis .
  qed
qed

text \<open>
  \<open>isGesture\<close> started on its initial locals never leaves by an exception: \<open>correct\<close>
  stays non-negative, and the loop condition keeps it below the number of steps.
\<close>

lemma isGesture_body_nonneg:
  "\<not> minorChange s \<Longrightarrow> 0 \<le> correct s \<Longrightarrow> isGesture_body gesture s c = Some s' \<Longrightarrow> 0 \<le> correct s'"
  by (auto simp: isGesture_body_quiet dest: match_step_correct_nonneg split: if_splits)

lemma isGesture_body_defined:
  "\<not> minorChange s \<Longrightarrow> 0 \<le> correct s \<Longrightarrow> correct s < getNumSteps gesture \<Longrightarrow>
   \<exists>s'. isGesture_body gesture s c = Some s'"
  using match_step_defined [of "s\<lparr>printed := printed s @ [collector_angle c]\<rparr>" gesture]
  by (simp add: isGesture_body_quiet)

lemma isGesture_loop_not_thrown:
  "\<not> minorChange s \<Longrightarrow> 0 \<le> correct s \<Longrightarrow> isGesture_loop gesture c cs s \<noteq> Thrown"
proof (induction cs arbitrary: s c)
  case Nil
  then show ?case by simp
next
  case (Cons c' cs)
  show ?case
  proof (cases "correct s < getNumSteps gesture \<and> currentPose c \<noteq> waveOut")
    case False
    then show ?thesis by auto
  next
    case True
    from isGesture_body_defined [OF Cons.prems] True obtain s1 where
      b: "isGesture_body gesture s c' = Some s1" by blast
    from isGesture_body_flag [OF Cons.prems(1) b] isGesture_body_nonneg [OF Cons.prems b]
    have "isGesture_loop gesture c' cs s1 \<noteq> Thrown" by (rule Cons.IH)
    with True b show ?thesis by simp
  qed
qed

lemma isGesture_not_thrown: "isGesture gesture c cs \<noteq> Thrown"
  unfolding isGesture_def
  by (rule isGesture_loop_not_thrown) (simp_all add: isGesture_init_def)

lemma isGesture_loop_result:
  "session_result (isGesture_loop gesture c cs s) \<noteq> Some False"
proof (induction cs arbitrary: s c)
  case Nil
  show ?case by simp
next
  case (Cons c' cs)
  show ?case using Cons.IH by (simp split: option.splits)
qed

section \<open>The matcher\<close>

subsection \<open>Sample sessions\<close>

text \<open>
  The gesture \<open>[(5,5,5), (10,5,5)]\<close> performed exactly: the session returns after the
  second waypoint and leaves the rest of the stream alone.
\<close>

lemma completion_scenario:
  "isGesture [\<lparr>roll = 5, pitch = 5, yaw = 5\<rparr>, \<lparr>roll = 10, pitch = 5, yaw = 5\<rparr>]
     (snapshot rest 0 0 0) [snapshot rest 5 5 5, snapshot rest 10 5 5, snapshot waveOut 3 3 3]
   = Returned True \<lparr>lastAngle = \<lparr>roll = 10, pitch = 5, yaw = 5\<rparr>, correct = 2, strikes = 0,
        minorChange = False,
        printed = [\<lparr>roll = 5, pitch = 5, yaw = 5\<rparr>, \<lparr>roll = 10, pitch = 5, yaw = 5\<rparr>]\<rparr>
       [snapshot waveOut 3 3 3]"
  by (simp add: isGesture_def isGesture_init_def isGesture_body_def match_step_def
      Gesture_equals_def EulerAngle_equals_def EulerAngle_default_def TOLERANCE_def MAX_STRIKES_def
      getNumSteps_def snapshot_def Let_def)

text \<open>
  The same gesture, with three misses in a row after the first step: the third miss
  clears both counters, and \<open>(10,5,5)\<close> is then a strike against the first waypoint.
\<close>

lemma restart_scenario:
  "isGesture [\<lparr>roll = 5, pitch = 5, yaw = 5\<rparr>, \<lparr>roll = 10, pitch = 5, yaw = 5\<rparr>]
     (snapshot rest 0 0 0)
     [snapshot rest 5 5 5, snapshot rest 1 1 1, snapshot rest 15 15 15, snapshot rest 1 1 1,
      snapshot rest 10 5 5]
   = Pending \<lparr>lastAngle = \<lparr>roll = 10, pitch = 5, yaw = 5\<rparr>, correct = 0, strikes = 1,
        minorChange = False,
        printed = [\<lparr>roll = 5, pitch = 5, yaw = 5\<rparr>, \<lparr>roll = 1, pitch = 1, yaw = 1\<rparr>,
                   \<lparr>roll = 15, pitch = 15, yaw = 15\<rparr>, \<lparr>roll = 1, pitch = 1, yaw = 1\<rparr>,
                   \<lparr>roll = 10, pitch = 5, yaw = 5\<rparr>]\<rparr>"
  by (simp add: isGesture_def isGesture_init_def isGesture_body_def match_step_def
      Gesture_equals_def EulerAngle_equals_def EulerAngle_default_def TOLERANCE_def MAX_STRIKES_def
      getNumSteps_def snapshot_def Let_def)

text \<open>A recording: an exact repeat is dropped, and \<open>doubleTap\<close> ends the session.\<close>

lemma record_stops_at_doubleTap:
  "GestureRecorder_record [snapshot rest 5 5 5, snapshot rest 5 5 5, snapshot fist 7 5 5,
      snapshot doubleTap 9 9 9, snapshot rest 1 1 1]
   = Returned ()
       \<lparr>rec_lastAngle = \<lparr>roll = 7, pitch = 5, yaw = 5\<rparr>, rec_minorChange = False,
          rec_values = [\<lparr>roll = 5, pitch = 5, yaw = 5\<rparr>, \<lparr>roll = 7, pitch = 5, yaw = 5\<rparr>]\<rparr>
       [snapshot rest 1 1 1]"
  by (simp add: GestureRecorder_record_def record_init_def record_body_def
      EulerAngle_default_def snapshot_def Let_def)

subsection \<open>Properties\<close>

text \<open>
  C10: for the empty gesture (\<open>getNumSteps() = 0\<close>) \<open>isGesture\<close> returns \<open>true\<close> at once:
  the locals are still the initial ones, no collector state of the stream is consumed,
  and the pose is never read: the result is the same for every collector state on entry
  (also one whose pose is \<open>waveOut\<close>) and for every stream, the empty one included.
\<close>

theorem empty_gesture_matches_at_once:
  "isGesture [] c cs = Returned True isGesture_init cs"
  by (cases cs) (simp_all add: isGesture_def isGesture_init_def getNumSteps_def)

text \<open>
  C4: in every matcher state whose \<open>strikes\<close> has reached \<open>MAX_STRIKES\<close>, a waypoint that
  was let through and is not tolerance-equal to the current target sets \<open>correct\<close> and
  \<open>strikes\<close> to 0; the next waypoint let through is then compared with the first waypoint
  of the gesture (a match makes \<open>correct\<close> 1, a mismatch is the first strike).
\<close>

theorem restart_after_max_strikes:
  "MAX_STRIKES \<le> strikes s \<and> Gesture_equals gesture w (correct s) = Some False \<Longrightarrow>
   match_step gesture w s = Some (s\<lparr>correct := 0, strikes := 0, lastAngle := w\<rparr>)
   \<and> match_step gesture w2 (s\<lparr>correct := 0, strikes := 0, lastAngle := w\<rparr>) =
       Some (if EulerAngle_equals (gesture ! 0) w2
             then s\<lparr>correct := 1, strikes := 0, lastAngle := w2\<rparr>
             else s\<lparr>correct := 0, strikes := 1, lastAngle := w2\<rparr>)"
  by (auto simp: match_step_def Gesture_equals_def MAX_STRIKES_def split: if_splits)

text \<open>
  C4, at a concrete state: gesture \<open>[(5,5,5), (10,5,5)]\<close>, one step confirmed, two
  strikes; \<open>(1,1,1)\<close> misses the second waypoint and resets both counters, and
  \<open>(10,5,5)\<close>, which would have matched the second waypoint, is then a strike against
  the first.
\<close>

theorem restart_after_max_strikes_witness:
  "match_step [\<lparr>roll = 5, pitch = 5, yaw = 5\<rparr>, \<lparr>roll = 10, pitch = 5, yaw = 5\<rparr>]
     \<lparr>roll = 1, pitch = 1, yaw = 1\<rparr>
     \<lparr>lastAngle = \<lparr>roll = 2, pitch = 2, yaw = 2\<rparr>, correct = 1, strikes = 2,
        minorChange = False, printed = []\<rparr>
   = Some \<lparr>lastAngle = \<lparr>roll = 1, pitch = 1, yaw = 1\<rparr>, correct = 0, strikes = 0,
        minorChange = False, printed = []\<rparr>
   \<and> match_step [\<lparr>roll = 5, pitch = 5, yaw = 5\<rparr>, \<lparr>roll = 10, pitch = 5, yaw = 5\<rparr>]
     \<lparr>roll = 10, pitch = 5, yaw = 5\<rparr>
     \<lparr>lastAngle = \<lparr>roll = 1, pitch = 1, yaw = 1\<rparr>, correct = 0, strikes = 0,
        minorChange = False, printed = []\<rparr>
   = Some \<lparr>lastAngle = \<lparr>roll = 10, pitch = 5, yaw = 5\<rparr>, correct = 0, strikes = 1,
        minorChange = False, printed = []\<rparr>"
  using restart_after_max_strikes
    [of "\<lparr>lastAngle = \<lparr>roll = 2, pitch = 2, yaw = 2\<rparr>, correct = 1, strikes = 2,
           minorChange = False, printed = []\<rparr>"
        "[\<lparr>roll = 5, pitch = 5, yaw = 5\<rparr>, \<lparr>roll = 10, pitch = 5, yaw = 5\<rparr>]"
        "\<lparr>roll = 1, pitch = 1, yaw = 1\<rparr>" "\<lparr>roll = 10, pitch = 5, yaw = 5\<rparr>"]
  by (simp add: Gesture_equals_def EulerAngle_equals_def TOLERANCE_def MAX_STRIKES_def)

text \<open>
  C5: in every matcher state, a waypoint that was let through and is tolerance-equal to
  the current target adds 1 to \<open>correct\<close> and leaves \<open>strikes\<close> as it was. A comparison
  lowers \<open>strikes\<close> only in the restart: the waypoint misses the target while \<open>strikes\<close>
  has reached \<open>MAX_STRIKES\<close>, and both counters become 0.
\<close>

theorem confirmed_step_keeps_strikes:
  "Gesture_equals gesture w (correct s) = Some True \<Longrightarrow>
   match_step gesture w s = Some (s\<lparr>correct := correct s + 1, lastAngle := w\<rparr>)
   \<and> strikes (s\<lparr>correct := correct s + 1, lastAngle := w\<rparr>) = strikes s
   \<and> (match_step gesture v t = Some t' \<and> strikes t' < strikes t \<longrightarrow>
        Gesture_equals gesture v (correct t) = Some False \<and> MAX_STRIKES \<le> strikes t
        \<and> strikes t' = 0 \<and> correct t' = 0)"
  by (auto simp: match_step_def MAX_STRIKES_def split: option.splits bool.splits if_splits)

text \<open>
  C5, at a concrete state: with two strikes on the books, \<open>(11,4,7)\<close> matches the target
  \<open>(10,5,5)\<close>; \<open>correct\<close> goes from 1 to 2 and \<open>strikes\<close> is still 2. From the same
  state \<open>(1,1,1)\<close> brings \<open>strikes\<close> down to 0, and it is a miss.
\<close>

theorem confirmed_step_keeps_strikes_witness:
  "match_step [\<lparr>roll = 5, pitch = 5, yaw = 5\<rparr>, \<lparr>roll = 10, pitch = 5, yaw = 5\<rparr>]
     \<lparr>roll = 11, pitch = 4, yaw = 7\<rparr>
     \<lparr>lastAngle = \<lparr>roll = 2, pitch = 2, yaw = 2\<rparr>, correct = 1, strikes = 2,
        minorChange = False, printed = []\<rparr>
   = Some \<lparr>lastAngle = \<lparr>roll = 11, pitch = 4, yaw = 7\<rparr>, correct = 2, strikes = 2,
        minorChange = False, printed = []\<rparr>
   \<and> Gesture_equals [\<lparr>roll = 5, pitch = 5, yaw = 5\<rparr>, \<lparr>roll = 10, pitch = 5, yaw = 5\<rparr>]
       \<lparr>roll = 1, pitch = 1, yaw = 1\<rparr> 1 = Some False"
  using confirmed_step_keeps_strikes
    [of "[\<lparr>roll = 5, pitch = 5, yaw = 5\<rparr>, \<lparr>roll = 10, pitch = 5, yaw = 5\<rparr>]"
        "\<lparr>roll = 11, pitch = 4, yaw = 7\<rparr>"
        "\<lparr>lastAngle = \<lparr>roll = 2, pitch = 2, yaw = 2\<rparr>, correct = 1, strikes = 2,
           minorChange = False, printed = []\<rparr>"
        "\<lparr>roll = 1, pitch = 1, yaw = 1\<rparr>"
        "\<lparr>lastAngle = \<lparr>roll = 2, pitch = 2, yaw = 2\<rparr>, correct = 1, strikes = 2,
           minorChange = False, printed = []\<rparr>"
        "\<lparr>lastAngle = \<lparr>roll = 1, pitch = 1, yaw = 1\<rparr>, correct = 0, strikes = 0,
           minorChange = False, printed = []\<rparr>"]
  by (simp add: Gesture_equals_def EulerAngle_equals_def TOLERANCE_def MAX_STRIKES_def match_step_def)

text \<open>
  C2, as the claim states it, fails: a session that finds \<open>waveOut\<close> before it has
  processed any sample and a session that completes the gesture return the same value,
  \<open>true\<close>. They differ only in the local \<open>correct\<close> (0 against 1), which is not returned.
\<close>

theorem abort_same_value_as_completion:
  "session_result
     (isGesture [\<lparr>roll = 5, pitch = 5, yaw = 5\<rparr>] (snapshot waveOut 3 4 5) [snapshot rest 5 5 5])
     = Some True
   \<and> session_result
     (isGesture [\<lparr>roll = 5, pitch = 5, yaw = 5\<rparr>] (snapshot rest 3 4 5) [snapshot rest 5 5 5])
     = Some True
   \<and> map_option correct (session_state
     (isGesture [\<lparr>roll = 5, pitch = 5, yaw = 5\<rparr>] (snapshot waveOut 3 4 5) [snapshot rest 5 5 5]))
     = Some 0
   \<and> map_option correct (session_state
     (isGesture [\<lparr>roll = 5, pitch = 5, yaw = 5\<rparr>] (snapshot rest 3 4 5) [snapshot rest 5 5 5]))
     = Some 1"
  by (simp add: isGesture_def isGesture_init_def isGesture_body_def match_step_def
      Gesture_equals_def EulerAngle_equals_def EulerAngle_default_def TOLERANCE_def
      getNumSteps_def snapshot_def Let_def)

text \<open>
  C2, amended: for every non-empty gesture and every stream, if the pose is \<open>waveOut\<close>
  when the session starts, \<open>isGesture\<close> returns at once, with its locals still the initial
  ones (\<open>correct = 0\<close>) and no collector state consumed; the value it returns is \<open>true\<close>,
  and no session of \<open>isGesture\<close> returns \<open>false\<close>, so the returned value does not tell an
  aborted session from a completed one.
\<close>

theorem abort_returns_true:
  "currentPose c = waveOut \<and> gesture \<noteq> [] \<Longrightarrow>
   isGesture gesture c cs = Returned True isGesture_init cs
   \<and> session_result (isGesture gesture2 c2 cs2) \<noteq> Some False"
  using isGesture_loop_result [of gesture2 c2 cs2 isGesture_init]
  by (cases cs) (simp_all add: isGesture_def isGesture_init_def getNumSteps_def)

text \<open>C2, amended, at a concrete gesture and stream.\<close>

theorem abort_returns_true_witness:
  "isGesture [\<lparr>roll = 5, pitch = 5, yaw = 5\<rparr>] (snapshot waveOut 3 4 5) [snapshot rest 5 5 5]
     = Returned True isGesture_init [snapshot rest 5 5 5]
   \<and> session_result
       (isGesture [\<lparr>roll = 5, pitch = 5, yaw = 5\<rparr>] (snapshot rest 3 4 5) [snapshot rest 5 5 5])
     \<noteq> Some False"
  using abort_returns_true
    [of "snapshot waveOut 3 4 5" "[\<lparr>roll = 5, pitch = 5, yaw = 5\<rparr>]" "[snapshot rest 5 5 5]"
        "[\<lparr>roll = 5, pitch = 5, yaw = 5\<rparr>]" "snapshot rest 3 4 5" "[snapshot rest 5 5 5]"]
  by (simp add: snapshot_def)

section \<open>The debounce tests\<close>

text \<open>
  C1 does not hold of the code. On the stream \<open>(5,5,5), (6,5,5), (5,5,5)\<close> the recorder
  stores all three waypoints and the matcher lets all three through: the one-step nudge
  and the return are not suppressed, because \<open>minorChange\<close> is never \<open>true\<close> when the
  second test reads it.
\<close>

theorem jitter_is_let_through:
  "map_option rec_values (session_state
     (GestureRecorder_record [snapshot rest 5 5 5, snapshot rest 6 5 5, snapshot rest 5 5 5]))
     = Some [\<lparr>roll = 5, pitch = 5, yaw = 5\<rparr>, \<lparr>roll = 6, pitch = 5, yaw = 5\<rparr>,
             \<lparr>roll = 5, pitch = 5, yaw = 5\<rparr>]
   \<and> map_option printed (session_state
     (isGesture [\<lparr>roll = 15, pitch = 5, yaw = 5\<rparr>] (snapshot rest 0 0 0)
        [snapshot rest 5 5 5, snapshot rest 6 5 5, snapshot rest 5 5 5]))
     = Some [\<lparr>roll = 5, pitch = 5, yaw = 5\<rparr>, \<lparr>roll = 6, pitch = 5, yaw = 5\<rparr>,
             \<lparr>roll = 5, pitch = 5, yaw = 5\<rparr>]"
  by (simp add: GestureRecorder_record_def record_init_def record_body_def
      isGesture_def isGesture_init_def isGesture_body_def match_step_def
      Gesture_equals_def EulerAngle_equals_def EulerAngle_default_def TOLERANCE_def MAX_STRIKES_def
      getNumSteps_def snapshot_def Let_def)

text \<open>
  C9: in both loops \<open>minorChange\<close> is \<open>false\<close> whenever an iteration starts, that is, in
  the state reached after any prefix of the stream. Hence the second \<open>continue\<close> test
  never fires, and an iteration from such a state lets through every collector state
  whose waypoint is not exactly \<open>lastAngle\<close> (the recorder appends it, the matcher prints
  it and compares it with the target) and drops only exact repeats.
\<close>

theorem minorChange_never_raised:
  "session_state (GestureRecorder_record cs) = Some rs \<and> session_state (isGesture gesture c0 cs') = Some ms
   \<Longrightarrow> \<not> rec_minorChange rs \<and> \<not> minorChange ms
     \<and> record_body rs c =
         (if rec_lastAngle rs = collector_angle c then rs
          else rs\<lparr>rec_values := rec_values rs @ [collector_angle c], rec_lastAngle := collector_angle c\<rparr>)
     \<and> isGesture_body gesture ms c =
         (if lastAngle ms = collector_angle c then Some ms
          else match_step gesture (collector_angle c) (ms\<lparr>printed := printed ms @ [collector_angle c]\<rparr>))"
proof -
  assume a: "session_state (GestureRecorder_record cs) = Some rs \<and> session_state (isGesture gesture c0 cs') = Some ms"
  have r: "\<not> rec_minorChange rs"
    using a record_loop_flag [of record_init cs rs]
    by (simp add: GestureRecorder_record_def record_init_def)
  have m: "\<not> minorChange ms"
    using a isGesture_loop_flag [of isGesture_init gesture c0 cs' ms]
    by (simp add: isGesture_def isGesture_init_def)
  show ?thesis
    using r m record_body_quiet [OF r] isGesture_body_quiet [OF m] by simp
qed


text \<open>
  C9, at concrete streams: after \<open>(5,5,5), (6,5,5)\<close> both flags are down, and the return
  to \<open>(5,5,5)\<close>, one step away from \<open>lastAngle\<close>, is recorded and compared.
\<close>

theorem minorChange_never_raised_witness:
  "record_body
     \<lparr>rec_lastAngle = \<lparr>roll = 6, pitch = 5, yaw = 5\<rparr>, rec_minorChange = False,
        rec_values = [\<lparr>roll = 5, pitch = 5, yaw = 5\<rparr>, \<lparr>roll = 6, pitch = 5, yaw = 5\<rparr>]\<rparr>
     (snapshot rest 5 5 5)
   = \<lparr>rec_lastAngle = \<lparr>roll = 5, pitch = 5, yaw = 5\<rparr>, rec_minorChange = False,
        rec_values = [\<lparr>roll = 5, pitch = 5, yaw = 5\<rparr>, \<lparr>roll = 6, pitch = 5, yaw = 5\<rparr>,
                      \<lparr>roll = 5, pitch = 5, yaw = 5\<rparr>]\<rparr>
   \<and> isGesture_body [\<lparr>roll = 15, pitch = 5, yaw = 5\<rparr>]
     \<lparr>lastAngle = \<lparr>roll = 6, pitch = 5, yaw = 5\<rparr>, correct = 0, strikes = 2,
        minorChange = False,
        printed = [\<lparr>roll = 5, pitch = 5, yaw = 5\<rparr>, \<lparr>roll = 6, pitch = 5, yaw = 5\<rparr>]\<rparr>
     (snapshot rest 5 5 5)
   = Some \<lparr>lastAngle = \<lparr>roll = 5, pitch = 5, yaw = 5\<rparr>, correct = 0, strikes = 0,
        minorChange = False,
        printed = [\<lparr>roll = 5, pitch = 5, yaw = 5\<rparr>, \<lparr>roll = 6, pitch = 5, yaw = 5\<rparr>,
                   \<lparr>roll = 5, pitch = 5, yaw = 5\<rparr>]\<rparr>"
  using minorChange_never_raised
    [of "[snapshot rest 5 5 5, snapshot rest 6 5 5]"
        "\<lparr>rec_lastAngle = \<lparr>roll = 6, pitch = 5, yaw = 5\<rparr>, rec_minorChange = False,
           rec_values = [\<lparr>roll = 5, pitch = 5, yaw = 5\<rparr>, \<lparr>roll = 6, pitch = 5, yaw = 5\<rparr>]\<rparr>"
        "[\<lparr>roll = 15, pitch = 5, yaw = 5\<rparr>]" "snapshot rest 0 0 0"
        "[snapshot rest 5 5 5, snapshot rest 6 5 5]"
        "\<lparr>lastAngle = \<lparr>roll = 6, pitch = 5, yaw = 5\<rparr>, correct = 0, strikes = 2,
           minorChange = False,
           printed = [\<lparr>roll = 5, pitch = 5, yaw = 5\<rparr>, \<lparr>roll = 6, pitch = 5, yaw = 5\<rparr>]\<rparr>"
        "snapshot rest 5 5 5"]
  by (simp add: GestureRecorder_record_def record_init_def record_body_def
      isGesture_def isGesture_init_def isGesture_body_def match_step_def
      Gesture_equals_def EulerAngle_equals_def EulerAngle_default_def TOLERANCE_def MAX_STRIKES_def
      getNumSteps_def snapshot_def collector_angle_def Let_def)

subsection \<open>A stream that shows one waypoint throughout\<close>

lemma rec_static_body:
  "rec_static w s \<Longrightarrow> collector_angle c = w \<Longrightarrow> rec_static w (record_body s c)"
  by (auto simp: rec_static_def record_body_quiet)

lemma rec_static_body_emits:
  "rec_static w s \<Longrightarrow> collector_angle c = w \<Longrightarrow> w \<noteq> EulerAngle_default \<Longrightarrow>
   rec_values (record_body s c) = [w]"
  by (auto simp: rec_static_def record_body_quiet)

lemma rec_static_loop:
  "rec_static w s \<Longrightarrow> \<forall>c\<in>set cs. collector_angle c = w \<Longrightarrow>
   \<exists>s'. session_state (record_loop cs s) = Some s' \<and> rec_static w s'
     \<and> (rec_values s = [w] \<longrightarrow> rec_values s' = [w])"
proof (induction cs arbitrary: s)
  case Nil
  then show ?case by simp
next
  case (Cons c cs)
  show ?case
  proof (cases "currentPose c = doubleTap")
    case True
    with Cons.prems show ?thesis by simp
  next
    case False
    from Cons.prems have ca: "collector_angle c = w" and rest: "\<forall>c\<in>set cs. collector_angle c = w"
      by simp_all
    from rec_static_body [OF Cons.prems(1) ca] have st: "rec_static w (record_body s c)" .
    from Cons.IH [OF st rest] obtain s' where
      s': "session_state (record_loop cs (record_body s c)) = Some s'" "rec_static w s'"
        "rec_values (record_body s c) = [w] \<longrightarrow> rec_values s' = [w]" by blast
    have "rec_values s = [w] \<longrightarrow> rec_values (record_body s c) = [w]"
      using Cons.prems(1) ca by (auto simp: rec_static_def record_body_quiet)
    with s' False show ?thesis by simp
  qed
qed

lemma match_static_body:
  assumes "match_static w s" and "collector_angle c = w" and "correct s < getNumSteps gesture"
  shows "\<exists>s'. isGesture_body gesture s c = Some s' \<and> match_static w s'
           \<and> (w \<noteq> EulerAngle_default \<longrightarrow> printed s' = [w])"
proof (cases "lastAngle s = w")
  case True
  with assms show ?thesis
    by (auto simp: match_static_def isGesture_body_quiet)
next
  case False
  with assms have la: "lastAngle s = EulerAngle_default" "printed s = []" "w \<noteq> EulerAngle_default"
    by (auto simp: match_static_def)
  let ?s1 = "s\<lparr>printed := printed s @ [w]\<rparr>"
  from assms have "0 \<le> correct ?s1" "correct ?s1 < getNumSteps gesture"
    by (simp_all add: match_static_def)
  from match_step_defined [OF this] obtain s' where s': "match_step gesture w ?s1 = Some s'"
    by blast
  from assms have b: "isGesture_body gesture s c = Some s'"
    using False s' by (simp add: match_static_def isGesture_body_quiet)
  from match_step_printed [OF s'] match_step_minorChange [OF s'] match_step_correct_nonneg [OF s']
  have "match_static w s'" "printed s' = [w]"
    using assms(1) la by (simp_all add: match_static_def)
  with b show ?thesis by blast
qed

lemma match_static_loop:
  "match_static w s \<Longrightarrow> \<forall>c\<in>set cs. collector_angle c = w \<Longrightarrow>
   \<exists>s'. session_state (isGesture_loop gesture c0 cs s) = Some s' \<and> match_static w s'
     \<and> (printed s = [w] \<longrightarrow> printed s' = [w])"
proof (induction cs arbitrary: s c0)
  case Nil
  then show ?case by simp
next
  case (Cons c cs)
  show ?case
  proof (cases "correct s < getNumSteps gesture \<and> currentPose c0 \<noteq> waveOut")
    case False
    with Cons.prems show ?thesis by auto
  next
    case True
    from Cons.prems have ca: "collector_angle c = w" and rest: "\<forall>c\<in>set cs. collector_angle c = w"
      by simp_all
    from match_static_body [OF Cons.prems(1) ca] True obtain s1 where
      s1: "isGesture_body gesture s c = Some s1" "match_static w s1"
          "w \<noteq> EulerAngle_default \<longrightarrow> printed s1 = [w]" by blast
    from Cons.IH [OF s1(2) rest, of c] obtain s' where
      s': "session_state (isGesture_loop gesture c cs s1) = Some s'" "match_static w s'"
        "printed s1 = [w] \<longrightarrow> printed s' = [w]" by blast
    have "printed s = [w] \<longrightarrow> w \<noteq> EulerAngle_default"
      using Cons.prems(1) by (auto simp: match_static_def)
    with s1 s' True show ?thesis by simp
  qed
qed

lemma rec_static_init: "rec_static w record_init"
  by (simp add: rec_static_def record_init_def)

lemma match_static_init: "match_static w isGesture_init"
  by (simp add: match_static_def isGesture_init_def)

lemma record_static:
  assumes "\<forall>c\<in>set cs. collector_angle c = w"
  shows "\<exists>rs. session_state (GestureRecorder_record cs) = Some rs
     \<and> rec_values rs =
         (if w = EulerAngle_default \<or> cs = [] \<or> currentPose (hd cs) = doubleTap then [] else [w])"
proof (cases cs)
  case Nil
  then show ?thesis by (simp add: GestureRecorder_record_def record_init_def)
next
  case (Cons c cs')
  show ?thesis
  proof (cases "currentPose c = doubleTap")
    case True
    with Cons show ?thesis by (simp add: GestureRecorder_record_def record_init_def)
  next
    case False
    from assms Cons have ca: "collector_angle c = w" and rest: "\<forall>c\<in>set cs'. collector_angle c = w"
      by simp_all
    from rec_static_loop [OF rec_static_body [OF rec_static_init ca] rest] obtain s' where
      s': "session_state (record_loop cs' (record_body record_init c)) = Some s'" "rec_static w s'"
        "rec_values (record_body record_init c) = [w] \<longrightarrow> rec_values s' = [w]" by blast
    have "rec_values s' = (if w = EulerAngle_default then [] else [w])"
      using s'(2,3) rec_static_body_emits [OF rec_static_init ca]
      by (auto simp: rec_static_def)
    with s'(1) Cons False show ?thesis by (simp add: GestureRecorder_record_def)
  qed
qed

lemma isGesture_static:
  assumes "\<forall>c\<in>set cs. collector_angle c = w"
  shows "\<exists>ms. session_state (isGesture gesture c0 cs) = Some ms
     \<and> printed ms =
         (if w = EulerAngle_default \<or> cs = [] \<or> gesture = [] \<or> currentPose c0 = waveOut
          then [] else [w])"
proof (cases "cs = [] \<or> gesture = [] \<or> currentPose c0 = waveOut")
  case True
  then show ?thesis
    by (cases cs) (auto simp: isGesture_def isGesture_init_def getNumSteps_def)
next
  case False
  then obtain c cs' where Cons: "cs = c # cs'" by (cases cs) auto
  from False have run: "correct isGesture_init < getNumSteps gesture" "currentPose c0 \<noteq> waveOut"
    by (simp_all add: isGesture_init_def getNumSteps_def)
  from assms Cons have ca: "collector_angle c = w" and rest: "\<forall>c\<in>set cs'. collector_angle c = w"
    by simp_all
  from match_static_body [OF match_static_init ca run(1)] obtain s1 where
    s1: "isGesture_body gesture isGesture_init c = Some s1" "match_static w s1"
        "w \<noteq> EulerAngle_default \<longrightarrow> printed s1 = [w]" by blast
  from match_static_loop [OF s1(2) rest, of gesture c] obtain s' where
    s': "session_state (isGesture_loop gesture c cs' s1) = Some s'" "match_static w s'"
        "printed s1 = [w] \<longrightarrow> printed s' = [w]" by blast
  have "printed s' = (if w = EulerAngle_default then [] else [w])"
    using s'(2,3) s1(3) by (auto simp: match_static_def)
  with s'(1) s1(1) Cons run False show ?thesis by (simp add: isGesture_def)
qed


text \<open>
  C6: when every collector state of the stream shows the same waypoint \<open>w\<close>, each loop
  lets at most one waypoint through. The first occurrence of \<open>w\<close> is let through unless
  \<open>w\<close> is the initial \<open>lastAngle\<close> \<open>(0,0,0)\<close> (or the loop ends before it looks at the
  stream: \<open>doubleTap\<close> at once for the recorder; an empty gesture or \<open>waveOut\<close> on entry for
  the matcher), and every repeat is dropped: the recorded gesture, and the waypoints
  the matcher prints, are \<open>[w]\<close> or empty accordingly.
\<close>

theorem static_stream_emits_at_most_once:
  "\<forall>c\<in>set cs. collector_angle c = w \<Longrightarrow>
   \<exists>rs ms. session_state (GestureRecorder_record cs) = Some rs
     \<and> session_state (isGesture gesture c0 cs) = Some ms
     \<and> rec_values rs =
         (if w = EulerAngle_default \<or> cs = [] \<or> currentPose (hd cs) = doubleTap then [] else [w])
     \<and> printed ms =
         (if w = EulerAngle_default \<or> cs = [] \<or> gesture = [] \<or> currentPose c0 = waveOut
          then [] else [w])"
  using record_static [of cs w] isGesture_static [of cs w gesture c0] by blast


text \<open>C6, on three copies of \<open>(5,5,5)\<close>: one waypoint is recorded, one is printed.\<close>

theorem static_stream_emits_at_most_once_witness:
  "\<exists>rs ms.
     session_state (GestureRecorder_record
       [snapshot rest 5 5 5, snapshot rest 5 5 5, snapshot rest 5 5 5]) = Some rs
     \<and> session_state (isGesture [\<lparr>roll = 15, pitch = 5, yaw = 5\<rparr>] (snapshot rest 0 0 0)
       [snapshot rest 5 5 5, snapshot rest 5 5 5, snapshot rest 5 5 5]) = Some ms
     \<and> rec_values rs = [\<lparr>roll = 5, pitch = 5, yaw = 5\<rparr>]
     \<and> printed ms = [\<lparr>roll = 5, pitch = 5, yaw = 5\<rparr>]"
  using static_stream_emits_at_most_once
    [of "[snapshot rest 5 5 5, snapshot rest 5 5 5, snapshot rest 5 5 5]"
        "\<lparr>roll = 5, pitch = 5, yaw = 5\<rparr>" "[\<lparr>roll = 15, pitch = 5, yaw = 5\<rparr>]"
        "snapshot rest 0 0 0"]
  by (simp add: snapshot_def collector_angle_def EulerAngle_default_def)

section \<open>The gesture library\<close>

lemma gest_assign_keys: "fst ` set (gest_assign lib k v) = insert k (fst ` set lib)"
  by (induction lib k v rule: gest_assign.induct) auto

lemma gest_assign_sorted:
  "sorted (map fst lib) \<Longrightarrow> sorted (map fst (gest_assign lib k v))"
proof (induction lib k v rule: gest_assign.induct)
  case (1 k v)
  show ?case by simp
next
  case (2 k' v' es k v)
  then show ?case
    using gest_assign_keys [of es k v]
    by (auto simp: image_iff)
qed

lemma save_all_keys: "fst ` set (save_all lib saves) = fst ` set lib \<union> fst ` set saves"
  by (induction lib saves rule: save_all.induct) (auto simp: gest_assign_keys)

lemma save_all_sorted: "sorted (map fst lib) \<Longrightarrow> sorted (map fst (save_all lib saves))"
  by (induction lib saves rule: save_all.induct) (auto simp: gest_assign_sorted)

lemma keyAt_first: "lib \<noteq> [] \<Longrightarrow> keyAt lib 0 = Some (fst (hd lib))"
  by (cases lib) (auto simp: keyAt_def)

text \<open>
  With the counter stuck at 0, every other index finds no entry to return, and so does
  index 0 on the empty library.
\<close>

lemma keyAt_loop_stuck: "i \<noteq> n \<Longrightarrow> keyAt_loop lib i n = None"
  by (induction lib i n rule: keyAt_loop.induct) auto

lemma keyAt_other_index: "n \<noteq> 0 \<Longrightarrow> keyAt lib n = None"
  by (simp add: keyAt_def keyAt_loop_stuck)

lemma keyAt_empty: "keyAt [] n = None"
  by (simp add: keyAt_def)

lemma sorted_hd_Min: "sorted xs \<Longrightarrow> xs \<noteq> [] \<Longrightarrow> hd xs = Min (set xs)"
  by (cases xs) (auto intro!: Min_eqI [symmetric])

lemma getSize_loop_length: "getSize_loop lib i = i + int (length lib)"
  by (induction lib i rule: getSize_loop.induct) auto

lemma gest_subscript_absent:
  "map_of lib name = None \<Longrightarrow> gest_subscript lib name = (None, gest_assign lib name None)"
  by (induction lib name rule: gest_subscript.induct) (auto split: if_splits)

lemma gest_assign_map_of: "map_of (gest_assign lib k v) k = Some v"
  by (induction lib k v rule: gest_assign.induct) auto

lemma gest_assign_length:
  "map_of lib k = None \<Longrightarrow> length (gest_assign lib k v) = Suc (length lib)"
  by (induction lib k v rule: gest_assign.induct) (auto split: if_splits)


text \<open>
  C7, as the claim states it, fails: looking up a name that is not in the library
  raises nothing. \<open>gest[name]\<close> on the empty library returns the null pointer and leaves
  an entry for the name, bound to the null pointer, in the library.
\<close>

theorem lookup_creates_null_entry:
  "gest_subscript [] ''curl'' = (None, [(''curl'', None)])"
  by simp

text \<open>
  C7, amended: for every library and every name absent from it, the lookup \<open>gest[name]\<close>
  does not fail: it returns the null pointer and inserts the name, bound to the null
  pointer, at its place in the key order, so that the library has one entry more.
\<close>

theorem lookup_absent_inserts_null:
  "map_of lib name = None \<Longrightarrow>
   gest_subscript lib name = (None, gest_assign lib name None)
   \<and> map_of (snd (gest_subscript lib name)) name = Some None
   \<and> getSize (snd (gest_subscript lib name)) = getSize lib + 1"
  by (simp add: gest_subscript_absent gest_assign_map_of gest_assign_length getSize_def
      getSize_loop_length)

text \<open>C7, amended, on a library that holds \<open>wave\<close> and is asked for \<open>curl\<close>.\<close>

theorem lookup_absent_inserts_null_witness:
  "gest_subscript [(''wave'', Some [\<lparr>roll = 5, pitch = 5, yaw = 5\<rparr>])] ''curl''
     = (None, [(''curl'', None), (''wave'', Some [\<lparr>roll = 5, pitch = 5, yaw = 5\<rparr>])])
   \<and> getSize (snd (gest_subscript [(''wave'', Some [\<lparr>roll = 5, pitch = 5, yaw = 5\<rparr>])] ''curl'')) = 2"
  using lookup_absent_inserts_null [of "[(''wave'', Some [\<lparr>roll = 5, pitch = 5, yaw = 5\<rparr>])]" "''curl''"]
  by (simp add: getSize_def)

text \<open>
  C8, as the claim states it, fails: after saving \<open>b\<close> and then \<open>a\<close>, \<open>keyAt(0)\<close> is \<open>a\<close>,
  not the first name saved.
\<close>

theorem keyAt_not_insertion_order:
  "keyAt (save_all [] [(''b'', [\<lparr>roll = 5, pitch = 5, yaw = 5\<rparr>]), (''a'', [\<lparr>roll = 1, pitch = 2, yaw = 3\<rparr>])]) 0 \<noteq> Some ''b''"
  by (simp add: keyAt_def)

text \<open>
  C8, amended: for every non-empty sequence of saves into the initially empty library,
  \<open>keyAt(0)\<close> is the least of the saved names in the order of the map's keys (the
  lexicographic order of the bytes), whatever the order of the saves.
\<close>

theorem keyAt_least_name:
  "saves \<noteq> [] \<Longrightarrow> keyAt (save_all [] saves) 0 = Some (Min (fst ` set saves))"
proof -
  assume ne: "saves \<noteq> []"
  let ?lib = "save_all [] saves"
  have keys: "fst ` set ?lib = fst ` set saves" by (simp add: save_all_keys)
  with ne have lib: "?lib \<noteq> []" by auto
  have "sorted (map fst ?lib)" by (rule save_all_sorted) simp
  from sorted_hd_Min [OF this] lib have "fst (hd ?lib) = Min (fst ` set ?lib)"
    by (simp add: hd_map)
  with keys keyAt_first [OF lib] show ?thesis by simp
qed


text \<open>C8, amended, on the saves \<open>b\<close> then \<open>a\<close>.\<close>

theorem keyAt_least_name_witness:
  "keyAt (save_all [] [(''b'', [\<lparr>roll = 5, pitch = 5, yaw = 5\<rparr>]), (''a'', [\<lparr>roll = 1, pitch = 2, yaw = 3\<rparr>])]) 0 = Some ''a''"
  using keyAt_least_name [of "[(''b'', [\<lparr>roll = 5, pitch = 5, yaw = 5\<rparr>]), (''a'', [\<lparr>roll = 1, pitch = 2, yaw = 3\<rparr>])]"]
  by simp

end
